theory Spec2Isabelle
  imports Complex_Main "HOL-Library.Sublist" "HOL-Library.Log_Nat"
begin

section \<open>Python values\<close>

text \<open>
  The strings of the prompts are lists of characters, and their lower-casing is the
  ASCII one; the caption of the vision component is a list of code points, with the
  tables of Unicode as parameters. A Python float is either a finite value, kept as the
  exact rational it denotes, or one of the two infinities, or NaN. A decoded JSON
  document is a tree of Python values; an object is kept as the list of its items, and
  \<open>dict.get\<close> reads the first item with the key.
\<close>

datatype pyfloat = Fin rat | PosInf | NegInf | NaN

datatype json =
    JNull
  | JBool bool
  | JInt int
  | JFloat pyfloat
  | JStr string
  | JList "json list"
  | JDict "(string \<times> json) list"

text \<open>A number as Python's \<open>min\<close> and \<open>max\<close> return it: the argument itself, int or float.\<close>

datatype pynum = PInt int | PFloat pyfloat

text \<open>
  The exceptions the modelled code can meet. All of them derive from Python's
  \<open>Exception\<close>; interrupts of the interpreter are outside the model.
\<close>

datatype error =
    ValueError
  | TypeError
  | OverflowError
  | AttributeError
  | JSONDecodeError
  | ValidationError
  | ServiceError string
  | RuntimeFailure string

definition nl :: string where
  "nl = [CHR 0x0A]"

definition dq :: string where
  "dq = [CHR 0x22]"

definition sq :: string where
  "sq = [CHR 0x27]"

definition dict_get :: "(string \<times> json) list \<Rightarrow> string \<Rightarrow> json \<Rightarrow> json" where
  "dict_get d k dflt = (case map_of d k of None \<Rightarrow> dflt | Some v \<Rightarrow> v)"

subsection \<open>Conversion to float\<close>

text \<open>
  \<open>float(n)\<close> on an int rounds to the nearest double, ties to even, and raises
  OverflowError when the rounded value does not fit. \<open>round_int\<close> is that rounding on
  a non-negative integer: 53 significant bits are kept.
\<close>

definition round_int :: "int \<Rightarrow> int" where
  "round_int a =
     (if a < 2 ^ 53 then a
      else let e = nat (bitlen a - 53);
               q = a div 2 ^ e;
               r = a mod 2 ^ e;
               h = 2 ^ (e - 1);
               q' = (if h < r \<or> (r = h \<and> odd q) then q + 1 else q)
           in q' * 2 ^ e)"

definition float_of_int :: "int \<Rightarrow> error + pyfloat" where
  "float_of_int n =
     (let m = round_int \<bar>n\<bar>
      in if 2 ^ 1024 \<le> m then Inl OverflowError
         else Inr (Fin (of_int (if n < 0 then - m else m))))"

text \<open>
  \<open>float(x)\<close> on a decoded JSON value. The parser of numeric strings belongs to the
  Python runtime and is a parameter: \<open>None\<close> stands for its ValueError.
\<close>

fun py_float :: "(string \<Rightarrow> pyfloat option) \<Rightarrow> json \<Rightarrow> error + pyfloat" where
  "py_float sf JNull = Inl TypeError"
| "py_float sf (JBool b) = Inr (Fin (if b then 1 else 0))"
| "py_float sf (JInt n) = float_of_int n"
| "py_float sf (JFloat f) = Inr f"
| "py_float sf (JStr s) = (case sf s of None \<Rightarrow> Inl ValueError | Some f \<Rightarrow> Inr f)"
| "py_float sf (JList xs) = Inl TypeError"
| "py_float sf (JDict d) = Inl TypeError"

subsection \<open>Comparison, min and max\<close>

fun float_lt :: "pyfloat \<Rightarrow> pyfloat \<Rightarrow> bool" where
  "float_lt NaN y = False"
| "float_lt x NaN = False"
| "float_lt (Fin a) (Fin b) = (a < b)"
| "float_lt (Fin a) PosInf = True"
| "float_lt (Fin a) NegInf = False"
| "float_lt PosInf y = False"
| "float_lt NegInf NegInf = False"
| "float_lt NegInf y = True"

fun num_float :: "pynum \<Rightarrow> pyfloat" where
  "num_float (PInt n) = Fin (of_int n)"
| "num_float (PFloat f) = f"

definition num_lt :: "pynum \<Rightarrow> pynum \<Rightarrow> bool" where
  "num_lt x y = float_lt (num_float x) (num_float y)"

text \<open>
  Python's two-argument \<open>min(a, b)\<close> keeps \<open>a\<close> unless \<open>b < a\<close>, and \<open>max(a, b)\<close>
  keeps \<open>a\<close> unless \<open>b > a\<close>; with a NaN every comparison is false.
\<close>

definition py_min :: "pynum \<Rightarrow> pynum \<Rightarrow> pynum" where
  "py_min a b = (if num_lt b a then b else a)"

definition py_max :: "pynum \<Rightarrow> pynum \<Rightarrow> pynum" where
  "py_max a b = (if num_lt a b then b else a)"

text \<open>The rational value of a number, when it has one.\<close>

fun num_val :: "pynum \<Rightarrow> rat option" where
  "num_val (PInt n) = Some (of_int n)"
| "num_val (PFloat (Fin q)) = Some q"
| "num_val (PFloat f) = None"

section \<open>Proactive analysis\<close>

record analysis =
  anniversary_type :: json
  seasonal_tags :: "json list"
  proactive_score :: pynum
  reasoning :: json

definition get_default_analysis :: analysis where
  "get_default_analysis =
     \<lparr>anniversary_type = JNull, seasonal_tags = [], proactive_score = PInt 0,
      reasoning = JStr ''Analysis failed, using default values.''\<rparr>"

text \<open>
  The guarded conversion of the score: \<open>max(0, min(5, float(x)))\<close> inside a
  \<open>try\<close> whose handler names ValueError and TypeError and gives 0 for them. Any other
  exception leaves the function.
\<close>

definition clamp_score :: "(string \<Rightarrow> pyfloat option) \<Rightarrow> json \<Rightarrow> error + pynum" where
  "clamp_score sf x =
     (case py_float sf x of
        Inr f \<Rightarrow> Inr (py_max (PInt 0) (py_min (PInt 5) (PFloat f)))
      | Inl ValueError \<Rightarrow> Inr (PInt 0)
      | Inl TypeError \<Rightarrow> Inr (PInt 0)
      | Inl e \<Rightarrow> Inl e)"

text \<open>
  \<open>_validate_analysis_result\<close>. A value that is not an object has no \<open>get\<close>, which is
  an AttributeError.
\<close>

definition validate_analysis_result ::
    "(string \<Rightarrow> pyfloat option) \<Rightarrow> json \<Rightarrow> error + analysis" where
  "validate_analysis_result sf raw_result =
     (case raw_result of
        JDict d \<Rightarrow>
          (let a0 = dict_get d ''anniversary_type'' JNull;
               a = (if a0 = JStr ''null'' then JNull else a0);
               t0 = dict_get d ''seasonal_tags'' (JList []);
               t = (case t0 of JList xs \<Rightarrow> xs | _ \<Rightarrow> [])
           in case clamp_score sf (dict_get d ''proactive_score'' (JInt 0)) of
                Inl e \<Rightarrow> Inl e
              | Inr s \<Rightarrow>
                  Inr \<lparr>anniversary_type = a, seasonal_tags = take 3 t, proactive_score = s,
                       reasoning = dict_get d ''reasoning'' (JStr ''No reasoning provided.'')\<rparr>)
      | _ \<Rightarrow> Inl AttributeError)"

record analysis_request =
  memory_title :: string
  memory_description :: string
  memory_type :: string
  memory_date :: "string option"
  memory_location :: "string option"
  people_present :: "string list option"

text \<open>\<open>sep.join(xs)\<close>.\<close>

fun py_join :: "string \<Rightarrow> string list \<Rightarrow> string" where
  "py_join sep [] = []"
| "py_join sep [x] = x"
| "py_join sep (x # y # ys) = x @ sep @ py_join sep (y # ys)"

text \<open>An optional string is false in a condition when it is \<open>None\<close> or empty.\<close>

fun opt_line :: "string \<Rightarrow> string option \<Rightarrow> string" where
  "opt_line label None = []"
| "opt_line label (Some v) = (if v = [] then [] else nl @ label @ v)"

definition analysis_format :: string where
  \<open>analysis_format =
     nl @ nl @
     ''ANNIVERSARY TYPES (select ONE or null): "work", "graduation", "birthday", "wedding", "anniversary", "retirement", "death".'' @ nl @
     ''SEASONAL TAGS (only if EXPLICITLY mentioned): christmas, halloween, thanksgiving, birthday, vacation, summer, winter, etc.'' @ nl @
     ''PROACTIVE SCORE (0-5): 5 for major life events, 3 for holidays, 1 for casual events, 0 for mundane.'' @ nl @
     nl @
     ''CRITICAL: Respond with ONLY a JSON object in this exact format:'' @ nl @
     ''{'' @ nl @
     ''  "anniversary_type": "work",'' @ nl @
     ''  "seasonal_tags": ["competition", "sports"],'' @ nl @
     ''  "proactive_score": 4,'' @ nl @
     ''  "reasoning": "Brief explanation of your analysis."'' @ nl @
     ''}''\<close>

definition construct_analysis_prompt :: "analysis_request \<Rightarrow> string" where
  "construct_analysis_prompt r =
     ''You are a memory analysis AI. Analyze the given memory for proactive trigger potential based on Anniversary type, Seasonal relevance, and a Proactive score (0-5).''
     @ nl @ nl @ ''MEMORY TO ANALYZE:''
     @ nl @ ''Title: '' @ dq @ memory_title r @ dq
     @ nl @ ''Description: '' @ dq @ memory_description r @ dq
     @ nl @ ''Type: '' @ memory_type r
     @ opt_line ''Date: '' (memory_date r)
     @ opt_line ''Location: '' (memory_location r)
     @ (case people_present r of
          None \<Rightarrow> []
        | Some ps \<Rightarrow> if ps = [] then [] else nl @ ''People Present: '' @ py_join '', '' ps)
     @ analysis_format"

text \<open>
  The body of the \<open>try\<close> in \<open>analyze_memory\<close>. The chat runtime and the JSON decoder are
  parameters: \<open>chat\<close> gives the content of the model's message for a prompt, or the
  exception of the call; \<open>loads\<close> is \<open>json.loads\<close>.
\<close>

definition analyze_memory_try ::
    "(string \<Rightarrow> error + string) \<Rightarrow> (string \<Rightarrow> error + json) \<Rightarrow> (string \<Rightarrow> pyfloat option)
      \<Rightarrow> analysis_request \<Rightarrow> error + analysis" where
  "analyze_memory_try chat loads sf r =
     (case chat (construct_analysis_prompt r) of
        Inl e \<Rightarrow> Inl e
      | Inr raw_json \<Rightarrow>
          (case loads raw_json of
             Inl e \<Rightarrow> Inl e
           | Inr analysis_result \<Rightarrow> validate_analysis_result sf analysis_result))"

text \<open>
  \<open>analyze_memory\<close>: the readiness check, then the \<open>try\<close> with its two handlers, the
  one for JSONDecodeError and the one for every other exception.
\<close>

definition analyze_memory ::
    "bool \<Rightarrow> (string \<Rightarrow> error + string) \<Rightarrow> (string \<Rightarrow> error + json) \<Rightarrow> (string \<Rightarrow> pyfloat option)
      \<Rightarrow> analysis_request \<Rightarrow> analysis" where
  "analyze_memory is_ready chat loads sf r =
     (if \<not> is_ready then get_default_analysis
      else case analyze_memory_try chat loads sf r of
             Inr res \<Rightarrow> res
           | Inl JSONDecodeError \<Rightarrow> get_default_analysis
           | Inl e \<Rightarrow> get_default_analysis)"

text \<open>
  Fixed runtimes for concrete runs: a chat runtime that answers every prompt with one
  text or fails with one exception, a decoder that yields one document or fails, and a
  numeric-string parser that rejects every string.
\<close>

definition reply_with :: "string \<Rightarrow> string \<Rightarrow> error + string" where
  "reply_with s prompt = Inr s"

definition chat_fails :: "error \<Rightarrow> string \<Rightarrow> error + string" where
  "chat_fails e prompt = Inl e"

definition decode_as :: "json \<Rightarrow> string \<Rightarrow> error + json" where
  "decode_as j s = Inr j"

definition decode_fails :: "string \<Rightarrow> error + json" where
  "decode_fails s = Inl JSONDecodeError"

definition no_numeric_strings :: "string \<Rightarrow> pyfloat option" where
  "no_numeric_strings s = None"

definition sample_memory :: analysis_request where
  "sample_memory =
     \<lparr>memory_title = ''Picnic'', memory_description = ''A picnic by the lake'',
      memory_type = ''photo'', memory_date = None, memory_location = None,
      people_present = None\<rparr>"

section \<open>Director: prompt construction\<close>

text \<open>
  The request models of \<open>models/ai_models.py\<close>. Record fields share one name space, so
  the fields carry the initials of their class: \<open>mc_type\<close> is \<open>MemoryContext.type\<close>,
  \<open>pc_description\<close> is \<open>PatientContext.description\<close>.
\<close>

record memory_context =
  mc_memory_id :: string
  mc_type :: string
  mc_description :: string

record patient_context =
  pc_name :: string
  pc_age :: "int option"
  pc_description :: string

record chat_request =
  query :: string
  context_memories :: "memory_context list"
  patient_context :: "patient_context option"
  conversation_type :: "string option"

subsection \<open>String operations\<close>

fun str_nat :: "nat \<Rightarrow> string" where
  "str_nat n =
     (if n < 10 then [char_of (48 + n)] else str_nat (n div 10) @ [char_of (48 + n mod 10)])"

definition str_int :: "int \<Rightarrow> string" where
  "str_int i = (if i < 0 then ''-'' @ str_nat (nat (- i)) else str_nat (nat i))"

definition char_lower :: "char \<Rightarrow> char" where
  "char_lower c =
     (let n = (of_char c :: nat) in if 65 \<le> n \<and> n \<le> 90 then char_of (n + 32) else c)"

definition lower :: "string \<Rightarrow> string" where
  "lower s = map char_lower s"

subsection \<open>The sections of the prompt\<close>

definition is_visual :: "memory_context \<Rightarrow> bool" where
  "is_visual mem = (mc_type mem = ''photo'' \<or> mc_type mem = ''video'')"

definition photo_recognition_query :: string where
  "photo_recognition_query =
     ''The user showed me a photo I recognize. Please describe the following memory to them in a warm, narrative style. Do not make it a cinematic show.''"

definition base_section :: string where
  \<open>base_section =
     ''You are an AI assistant for a system called 'The Memory Palace', speaking to an elderly user with memory loss. Your tone must be warm, gentle, patient, and reassuring.''
     @ nl @ nl @ ''--- JSON OUTPUT STRUCTURE ---''
     @ nl @ ''Your entire response MUST be a single, valid JSON object. Choose the appropriate format:''
     @ nl @ ''1. NARRATIVE: {"response_type": "narrative", "message": "Your response"}''
     @ nl @ ''2. CINEMATIC: {"response_type": "cinematic_show", "show_title": "Title", "scenes": [{"memory_id": "id", "narration": "text"}]}''\<close>

definition casual_section :: string where
  "casual_section =
     nl @ nl @ ''--- CASUAL CONVERSATION MODE ---''
     @ nl @ ''The user is having a casual conversation with no specific memories provided.''
     @ nl @ ''Respond warmly and naturally using NARRATIVE format.''
     @ nl @ ''You can ask how they're feeling, what they'd like to talk about, or just be a friendly companion.''"

definition memory_based_section :: "memory_context list \<Rightarrow> string" where
  "memory_based_section mems =
     nl @ nl @ ''--- MEMORY CONVERSATION MODE ---''
     @ nl @ ''The user is asking about memories. Relevant memories have been provided below.''
     @ (if list_ex is_visual mems then
          (let visual_count = str_nat (length (filter is_visual mems))
           in nl @ ''Since '' @ visual_count @ '' visual memories (photos/videos) are available, use CINEMATIC format.''
              @ nl @ ''You MUST create exactly '' @ visual_count @ '' scenes - one for each visual memory provided.''
              @ nl @ ''DO NOT skip any memories. Include ALL '' @ visual_count @ '' visual memories as separate scenes.'')
        else
          nl @ ''Only text/voice memories are available, so use NARRATIVE format.''
          @ nl @ ''Weave the memory information naturally into your response.'')"

text \<open>The \<open>if\<close>/\<open>elif\<close> on the conversation type; any other value adds nothing.\<close>

definition mode_section :: "chat_request \<Rightarrow> string" where
  "mode_section request =
     (if conversation_type request = Some ''casual'' then casual_section
      else if conversation_type request = Some ''memory_based''
        then memory_based_section (context_memories request)
      else [])"

definition override_section :: "chat_request \<Rightarrow> string" where
  "override_section request =
     (if query request = photo_recognition_query then
        nl @ nl @ ''--- PHOTO RECOGNITION OVERRIDE ---''
        @ nl @ ''This is a specific photo the user showed. Use NARRATIVE format to describe this specific memory warmly.''
      else [])"

definition rules_section :: string where
  "rules_section =
     nl @ nl @ ''--- IMPORTANT RULES ---''
     @ nl @ ''- Base responses ONLY on the provided memory descriptions and Patient Status notes.''
     @ nl @ ''- If a person's relationship is in parentheses (e.g., 'Kate (Daughter)'), use it in your narration, for example, by saying 'your daughter, Kate'.''
     @ nl @ ''- CRITICAL: If any memory description refers to 'You', it means the patient. Treat 'You' as referring to the patient and respond accordingly.''
     @ nl @ ''- For cinematic shows: memory_id must match exactly from the provided memories''
     @ nl @ ''- Show titles should be personal and address the patient in second person''
     @ nl @ ''- IMPORTANT: For video memories, keep the narration SHORT and concise. Video narrations should be brief and to the point.''
     @ nl @ ''- DO NOT hallucinate details not present in the memory descriptions''"

definition patient_section :: "chat_request \<Rightarrow> string" where
  "patient_section request =
     (case patient_context request of
        None \<Rightarrow> []
      | Some p \<Rightarrow>
          nl @ nl @ ''--- PATIENT INFO ---'' @ nl @ ''Name: '' @ pc_name p
          @ (case pc_age p of
               None \<Rightarrow> []
             | Some a \<Rightarrow> if a = 0 then [] else nl @ ''Age: '' @ str_int a)
          @ (if pc_description p = [] then [] else nl @ ''Notes: '' @ pc_description p))"

definition patient_name_of :: "chat_request \<Rightarrow> string" where
  "patient_name_of request = (case patient_context request of None \<Rightarrow> [] | Some p \<Rightarrow> pc_name p)"

text \<open>
  The test on a memory's description: the patient's name occurs in it, or the word
  \<open>you\<close> stands in it between spaces, at its start or at its end, all in lower case.
\<close>

definition patient_is_present :: "string \<Rightarrow> string \<Rightarrow> bool" where
  "patient_is_present patient_name description =
     (sublist (lower patient_name) (lower description)
      \<or> sublist '' you '' (lower description)
      \<or> prefix ''you '' (lower description)
      \<or> suffix '' you'' (lower description))"

text \<open>
  The loop over \<open>enumerate(request.context_memories)\<close>; \<open>i\<close> is the index of the head
  of the remaining list.
\<close>

fun memory_lines :: "string \<Rightarrow> nat \<Rightarrow> memory_context list \<Rightarrow> string" where
  "memory_lines patient_name i [] = []"
| "memory_lines patient_name i (mem # mems) =
     nl @ ''Memory '' @ str_nat (i + 1) @ '' (ID: '' @ mc_memory_id mem @ ''):''
     @ nl @ mc_description mem
     @ (if patient_name = [] then []
        else if patient_is_present patient_name (mc_description mem) then
          nl @ ''Patient Status: PRESENT. The patient, '' @ patient_name
          @ '', is in this memory. You MUST refer to him as '' @ dq @ ''you'' @ dq @ ''.''
        else
          nl @ ''Patient Status: NOT PRESENT. The patient is NOT in this memory. You MUST refer to all people by their names.'')
     @ nl
     @ memory_lines patient_name (i + 1) mems"

text \<open>The loop over \<open>enumerate(visual_memories)\<close>.\<close>

fun scene_lines :: "nat \<Rightarrow> memory_context list \<Rightarrow> string" where
  "scene_lines i [] = []"
| "scene_lines i (mem # mems) =
     nl @ ''- Scene '' @ str_nat (i + 1) @ '': memory_id '' @ sq @ mc_memory_id mem @ sq
     @ '' ('' @ mc_type mem @ '')''
     @ (if mc_type mem = ''video'' then '' - KEEP NARRATION SHORT'' else [])
     @ scene_lines (i + 1) mems"

definition scene_creation_section :: "memory_context list \<Rightarrow> string" where
  "scene_creation_section visual_memories =
     (if visual_memories = [] then []
      else
        nl @ ''--- MANDATORY SCENE CREATION ---''
        @ nl @ ''You MUST create '' @ str_nat (length visual_memories)
        @ '' scenes using these exact memory IDs:''
        @ scene_lines 0 visual_memories
        @ nl @ ''DO NOT create fewer than '' @ str_nat (length visual_memories)
        @ '' scenes. Each visual memory MUST have its own scene.'')"

definition memories_section :: "chat_request \<Rightarrow> string" where
  "memories_section request =
     (if context_memories request \<noteq> [] then
        nl @ nl @ ''--- RELEVANT MEMORIES ---''
        @ memory_lines (patient_name_of request) 0 (context_memories request)
        @ scene_creation_section (filter is_visual (context_memories request))
      else
        nl @ nl @ ''--- NO RELEVANT MEMORIES ---''
        @ nl @ ''No specific memories were found related to this query.'')"

definition respond_section :: "chat_request \<Rightarrow> string" where
  "respond_section request =
     nl @ nl @ ''--- RESPOND NOW ---''
     @ nl @ ''User Query: '' @ sq @ query request @ sq
     @ (if conversation_type request = Some ''casual''
        then nl @ ''Provide a warm, casual response using NARRATIVE format.''
        else nl @ ''Provide an appropriate response based on the memories and rules above.'')"

text \<open>\<open>_construct_prompt\<close>: the sections in the order the code appends them.\<close>

definition construct_prompt :: "chat_request \<Rightarrow> string" where
  "construct_prompt request =
     base_section @ mode_section request @ override_section request @ rules_section
     @ patient_section request @ memories_section request @ respond_section request"

section \<open>Director: interpretation of the reply\<close>

text \<open>
  The response models, validated as pydantic 2 does. A field of type \<open>str\<close> accepts a
  string and nothing else; a
  required field that is missing, a value of the wrong type, and a \<open>response_type\<close>
  other than the literal of the class are validation errors. Keys that are no field of
  the class are ignored.
\<close>

datatype scene = Scene string string

datatype director_response =
    CinematicShow string "scene list"
  | NarrativeResponse string

fun field_str :: "(string \<times> json) list \<Rightarrow> string \<Rightarrow> error + string" where
  "field_str d k = (case map_of d k of Some (JStr s) \<Rightarrow> Inr s | _ \<Rightarrow> Inl ValidationError)"

definition literal_ok :: "(string \<times> json) list \<Rightarrow> string \<Rightarrow> bool" where
  "literal_ok d lit = (case map_of d ''response_type'' of None \<Rightarrow> True | Some v \<Rightarrow> v = JStr lit)"

fun Scene_init :: "json \<Rightarrow> error + scene" where
  "Scene_init (JDict d) =
     (case field_str d ''memory_id'' of
        Inl e \<Rightarrow> Inl e
      | Inr m \<Rightarrow> (case field_str d ''narration'' of Inl e \<Rightarrow> Inl e | Inr n \<Rightarrow> Inr (Scene m n)))"
| "Scene_init j = Inl ValidationError"

fun scenes_init :: "json list \<Rightarrow> error + scene list" where
  "scenes_init [] = Inr []"
| "scenes_init (j # js) =
     (case Scene_init j of
        Inl e \<Rightarrow> Inl e
      | Inr sc \<Rightarrow> (case scenes_init js of Inl e \<Rightarrow> Inl e | Inr scs \<Rightarrow> Inr (sc # scs)))"

definition CinematicShow_init :: "(string \<times> json) list \<Rightarrow> error + director_response" where
  "CinematicShow_init d =
     (if \<not> literal_ok d ''cinematic_show'' then Inl ValidationError
      else case field_str d ''show_title'' of
             Inl e \<Rightarrow> Inl e
           | Inr t \<Rightarrow>
               (case map_of d ''scenes'' of
                  Some (JList js) \<Rightarrow>
                    (case scenes_init js of Inl e \<Rightarrow> Inl e | Inr scs \<Rightarrow> Inr (CinematicShow t scs))
                | _ \<Rightarrow> Inl ValidationError))"

definition NarrativeResponse_init :: "(string \<times> json) list \<Rightarrow> error + director_response" where
  "NarrativeResponse_init d =
     (if \<not> literal_ok d ''narrative'' then Inl ValidationError
      else case field_str d ''message'' of Inl e \<Rightarrow> Inl e | Inr m \<Rightarrow> Inr (NarrativeResponse m))"

definition not_available_message :: string where
  "not_available_message =
     ''Error: The AI Director service is not available or the configured model is not installed.''"

definition fallback_message :: string where
  "fallback_message = ''I'' @ sq @ ''m sorry, I had a little trouble organizing my thoughts.''"

text \<open>
  The body of the \<open>try\<close> in \<open>generate_response\<close>, after the call of the model: decoding
  and the choice on \<open>response_type\<close>. A decoded value that is no object has no \<open>get\<close>.
\<close>

definition interpret_reply :: "(string \<Rightarrow> error + json) \<Rightarrow> string \<Rightarrow> error + director_response" where
  "interpret_reply loads raw_json_output =
     (case loads raw_json_output of
        Inl e \<Rightarrow> Inl e
      | Inr (JDict response_data) \<Rightarrow>
          (if map_of response_data ''response_type'' = Some (JStr ''cinematic_show'')
             then CinematicShow_init response_data
           else if map_of response_data ''response_type'' = Some (JStr ''narrative'')
             then NarrativeResponse_init response_data
           else Inl ValueError)
      | Inr j \<Rightarrow> Inl AttributeError)"

text \<open>
  \<open>generate_response\<close>. The result is the response together with the prompts sent to
  the model, one for each call of \<open>client.chat\<close>, in order.
\<close>

definition generate_response ::
    "bool \<Rightarrow> (string \<Rightarrow> error + string) \<Rightarrow> (string \<Rightarrow> error + json) \<Rightarrow> chat_request
      \<Rightarrow> director_response \<times> string list" where
  "generate_response is_ready chat loads request =
     (if \<not> is_ready then (NarrativeResponse not_available_message, [])
      else
        let prompt = construct_prompt request
        in (case chat prompt of
              Inl e \<Rightarrow> NarrativeResponse fallback_message
            | Inr raw_json_output \<Rightarrow>
                (case interpret_reply loads raw_json_output of
                   Inl e \<Rightarrow> NarrativeResponse fallback_message
                 | Inr response \<Rightarrow> response),
            [prompt]))"

section \<open>Face matching\<close>

text \<open>
  \<open>KnownFacePayload\<close>, with the fields \<open>person_id\<close>, \<open>name\<close> and \<open>avatar_base_64\<close>. A
  recognised person is the dictionary with the keys \<open>person_id\<close> and \<open>name\<close>, kept as a
  pair. The face library is a parameter: \<open>enc_avatar\<close> decodes and loads an avatar and
  gives the encodings of its faces, \<open>enc_probe\<close> does the same for the photo to check
  after locating its faces, each with the exception it may raise, and \<open>face_distance\<close>
  is the distance of two encodings.
\<close>

record known_face_payload =
  kf_person_id :: int
  kf_name :: string
  kf_avatar_base_64 :: string

fun float_le :: "pyfloat \<Rightarrow> pyfloat \<Rightarrow> bool" where
  "float_le NaN y = False"
| "float_le x NaN = False"
| "float_le (Fin a) (Fin b) = (a \<le> b)"
| "float_le (Fin a) PosInf = True"
| "float_le (Fin a) NegInf = False"
| "float_le PosInf PosInf = True"
| "float_le PosInf y = False"
| "float_le NegInf y = True"

text \<open>The double written \<open>0.6\<close>.\<close>

definition tolerance :: pyfloat where
  "tolerance = Fin (5404319552844595 / 9007199254740992)"

definition compare_faces :: "('e \<Rightarrow> 'e \<Rightarrow> pyfloat) \<Rightarrow> 'e list \<Rightarrow> 'e \<Rightarrow> bool list" where
  "compare_faces face_distance known_face_encodings face_encoding =
     map (\<lambda>k. float_le (face_distance k face_encoding) tolerance) known_face_encodings"

text \<open>\<open>matches.index(True)\<close> when \<open>True in matches\<close>, and \<open>None\<close> when it is not.\<close>

fun first_true :: "bool list \<Rightarrow> nat option" where
  "first_true [] = None"
| "first_true (b # bs) = (if b then Some 0 else map_option Suc (first_true bs))"

text \<open>
  The first loop: an avatar that raises or shows no face is skipped, the others give
  their first encoding and their metadata, appended to two lists in step.
\<close>

fun load_known ::
    "(string \<Rightarrow> error + 'e list) \<Rightarrow> known_face_payload list \<Rightarrow> ('e \<times> (int \<times> string)) list" where
  "load_known enc_avatar [] = []"
| "load_known enc_avatar (person_data # rest) =
     (case enc_avatar (kf_avatar_base_64 person_data) of
        Inr (a # as) \<Rightarrow>
          (a, (kf_person_id person_data, kf_name person_data)) # load_known enc_avatar rest
      | _ \<Rightarrow> load_known enc_avatar rest)"

text \<open>The second loop, over the encodings of the faces of the photo.\<close>

fun match_faces ::
    "('e \<Rightarrow> 'e \<Rightarrow> pyfloat) \<Rightarrow> ('e \<times> (int \<times> string)) list \<Rightarrow> 'e list \<Rightarrow> (int \<times> string) list
      \<Rightarrow> (int \<times> string) list" where
  "match_faces face_distance known [] recognized_people = recognized_people"
| "match_faces face_distance known (face_encoding # rest) recognized_people =
     (case first_true (compare_faces face_distance (map fst known) face_encoding) of
        None \<Rightarrow> match_faces face_distance known rest recognized_people
      | Some first_match_index \<Rightarrow>
          (let match_metadata = map snd known ! first_match_index;
               person_id = fst match_metadata
           in if \<not> list_ex (\<lambda>p. fst p = person_id) recognized_people
              then match_faces face_distance known rest
                     (recognized_people @ [(person_id, snd match_metadata)])
              else match_faces face_distance known rest recognized_people))"

definition identify_people ::
    "bool \<Rightarrow> (string \<Rightarrow> error + 'e list) \<Rightarrow> (string \<Rightarrow> error + 'e list) \<Rightarrow> ('e \<Rightarrow> 'e \<Rightarrow> pyfloat)
      \<Rightarrow> string \<Rightarrow> known_face_payload list \<Rightarrow> error + (int \<times> string) list" where
  "identify_people is_ready enc_avatar enc_probe face_distance photo_to_check_base64 known_faces_payload =
     (if \<not> is_ready then Inl (ServiceError ''Face Recognition service is not ready.'')
      else if known_faces_payload = [] then Inr []
      else
        let known = load_known enc_avatar known_faces_payload
        in if known = [] then Inr []
           else (case enc_probe photo_to_check_base64 of
                   Inl e \<Rightarrow> Inr []
                 | Inr unknown_face_encodings \<Rightarrow>
                     Inr (match_faces face_distance known unknown_face_encodings [])))"

section \<open>Vision: the caption\<close>

text \<open>
  A caption is a Python string, a list of code points. The case mappings and the white
  space of Unicode are tables of the Python runtime and are parameters: the full
  title-case and lower-case mappings of a code point, each a short list of code points,
  the test that a capital sigma at a position of a string is a final one, and the test
  for white space.
\<close>

record ucd =
  to_title_full :: "nat \<Rightarrow> nat list"
  to_lower_full :: "nat \<Rightarrow> nat list"
  final_sigma :: "nat list \<Rightarrow> nat \<Rightarrow> bool"
  is_whitespace :: "nat \<Rightarrow> bool"

definition code_points :: "string \<Rightarrow> nat list" where
  "code_points s = map of_char s"

text \<open>
  The lower case of the character at the position \<open>i\<close> of \<open>s\<close>: the capital sigma
  (U+03A3) becomes the final or the medial small sigma, any other character is mapped by
  the table.
\<close>

definition lower_ucs4 :: "ucd \<Rightarrow> nat list \<Rightarrow> nat \<Rightarrow> nat list" where
  "lower_ucs4 u s i =
     (let c = s ! i
      in if c = 0x3A3 then [if final_sigma u s i then 0x3C2 else 0x3C3]
         else to_lower_full u c)"

text \<open>\<open>str.lower()\<close>: every character in lower case.\<close>

definition py_lower :: "ucd \<Rightarrow> nat list \<Rightarrow> nat list" where
  "py_lower u s = concat (map (lower_ucs4 u s) [0 ..< length s])"

text \<open>\<open>str.strip()\<close>: the white space of both ends is removed.\<close>

definition py_strip :: "ucd \<Rightarrow> nat list \<Rightarrow> nat list" where
  "py_strip u s = rev (dropWhile (is_whitespace u) (rev (dropWhile (is_whitespace u) s)))"

text \<open>
  \<open>str.capitalize()\<close>: the first character in title case, every other character in
  lower case; the empty string is returned as it is.
\<close>

definition py_capitalize :: "ucd \<Rightarrow> nat list \<Rightarrow> nat list" where
  "py_capitalize u s =
     (if s = [] then []
      else to_title_full u (s ! 0) @ concat (map (lower_ucs4 u s) [1 ..< length s]))"

text \<open>
  \<open>generate_caption\<close>. The captioning model is a parameter: it gives the decoded
  caption of the image, or the exception of opening the image or of the model, which
  the handler raises again.
\<close>

definition generate_caption ::
    "ucd \<Rightarrow> bool \<Rightarrow> ('b \<Rightarrow> error + nat list) \<Rightarrow> 'b \<Rightarrow> error + nat list" where
  "generate_caption u is_ready blip image_bytes =
     (if \<not> is_ready then Inl (ServiceError ''Vision service is not ready.'')
      else case blip image_bytes of
             Inl e \<Rightarrow> Inl e
           | Inr caption \<Rightarrow>
               Inr (py_capitalize u
                      (if prefix (code_points ''arafed image of'') (py_lower u caption)
                       then py_strip u (drop (length ''arafed image of'') caption)
                       else caption)))"

section \<open>Requests and runtimes for concrete runs\<close>

definition sample_request :: chat_request where
  "sample_request =
     \<lparr>query = ''Tell me about the beach'',
      context_memories =
        [\<lparr>mc_memory_id = ''m1'', mc_type = ''photo'', mc_description = ''Beach day''\<rparr>],
      patient_context = None, conversation_type = Some ''memory_based''\<rparr>"

definition casual_photo_request :: chat_request where
  "casual_photo_request =
     sample_request\<lparr>query := ''Hello'', conversation_type := Some ''casual''\<rparr>"

definition recognized_photo_request :: chat_request where
  "recognized_photo_request = sample_request\<lparr>query := photo_recognition_query\<rparr>"

definition two_visual_request :: chat_request where
  "two_visual_request =
     \<lparr>query = ''What did we do last summer?'',
      context_memories =
        [\<lparr>mc_memory_id = ''m1'', mc_type = ''photo'', mc_description = ''Beach day''\<rparr>,
         \<lparr>mc_memory_id = ''m2'', mc_type = ''text'', mc_description = ''A letter from Kate''\<rparr>,
         \<lparr>mc_memory_id = ''m3'', mc_type = ''video'', mc_description = ''Birthday''\<rparr>],
      patient_context = None, conversation_type = Some ''memory_based''\<rparr>"

text \<open>
  The instruction for the scene number \<open>k\<close>, as the specification words it: the
  identifier of the memory, its category, and the request for a short narration when
  the memory is a video.
\<close>

definition scene_instruction :: "nat \<Rightarrow> memory_context \<Rightarrow> string" where
  "scene_instruction k mem =
     nl @ ''- Scene '' @ str_nat k @ '': memory_id '' @ sq @ mc_memory_id mem @ sq
     @ '' ('' @ mc_type mem @ '')''
     @ (if mc_type mem = ''video'' then '' - KEEP NARRATION SHORT'' else [])"

text \<open>
  The matching as the specification words it: the first retained reference, in the
  order of the list, whose distance to the face is within the tolerance, and the removal
  of the identities already seen, the first occurrence staying.
\<close>

definition first_match ::
    "('e \<Rightarrow> 'e \<Rightarrow> pyfloat) \<Rightarrow> ('e \<times> (int \<times> string)) list \<Rightarrow> 'e \<Rightarrow> (int \<times> string) option" where
  "first_match face_distance known face_encoding =
     map_option snd (find (\<lambda>k. float_le (face_distance (fst k) face_encoding) tolerance) known)"

fun dedup_ids :: "int list \<Rightarrow> (int \<times> string) list \<Rightarrow> (int \<times> string) list" where
  "dedup_ids seen [] = []"
| "dedup_ids seen (p # ps) =
     (if fst p \<in> set seen then dedup_ids seen ps else p # dedup_ids (fst p # seen) ps)"

text \<open>
  A face library for concrete runs: two avatars with one face each, a photo of a group
  with two faces, a landscape with none, and any other text is no image. Both faces of
  the group are within the tolerance of both avatars, and nearer to the second.
\<close>

definition demo_encodings :: "string \<Rightarrow> error + nat list" where
  "demo_encodings img =
     (if img = ''ann'' then Inr [1]
      else if img = ''bob'' then Inr [2]
      else if img = ''group'' then Inr [10, 11]
      else if img = ''landscape'' then Inr []
      else Inl (RuntimeFailure ''cannot identify image file''))"

definition demo_distance :: "nat \<Rightarrow> nat \<Rightarrow> pyfloat" where
  "demo_distance k f = Fin (if k = 1 then 1 / 2 else if k = 2 then 1 / 10 else 1)"

definition demo_known_faces :: "known_face_payload list" where
  "demo_known_faces =
     [\<lparr>kf_person_id = 5, kf_name = ''Eve'', kf_avatar_base_64 = ''landscape''\<rparr>,
      \<lparr>kf_person_id = 7, kf_name = ''Ann'', kf_avatar_base_64 = ''ann''\<rparr>,
      \<lparr>kf_person_id = 8, kf_name = ''Bob'', kf_avatar_base_64 = ''bob''\<rparr>]"

text \<open>
  The tables of Unicode on the code points below 256: the letters of ASCII and of
  Latin-1 with their cases, the sharp s with the title case \<open>Ss\<close>, the micro sign and
  the y with diaeresis with their capitals beyond Latin-1, and the white space of
  ASCII with the next-line control and the no-break space. Beyond 255 these tables map
  a code point to itself, so they stand for Python's on the strings below 256 only;
  \<open>latin1_tables\<close> says that a runtime agrees with them there.
\<close>

definition latin1_ucd :: ucd where
  "latin1_ucd =
     \<lparr>to_title_full =
        (\<lambda>c. if (97 \<le> c \<and> c \<le> 122) \<or> (224 \<le> c \<and> c \<le> 254 \<and> c \<noteq> 247) then [c - 32]
              else if c = 223 then [83, 115]
              else if c = 181 then [924]
              else if c = 255 then [376]
              else [c]),
      to_lower_full =
        (\<lambda>c. if (65 \<le> c \<and> c \<le> 90) \<or> (192 \<le> c \<and> c \<le> 222 \<and> c \<noteq> 215) then [c + 32]
              else [c]),
      final_sigma = (\<lambda>s i. False),
      is_whitespace = (\<lambda>c. (9 \<le> c \<and> c \<le> 13) \<or> (28 \<le> c \<and> c \<le> 32) \<or> c = 133 \<or> c = 160)\<rparr>"

definition latin1_tables :: "ucd \<Rightarrow> bool" where
  "latin1_tables u \<longleftrightarrow>
     (\<forall>c < 256. to_title_full u c = to_title_full latin1_ucd c
               \<and> to_lower_full u c = to_lower_full latin1_ucd c
               \<and> is_whitespace u c = is_whitespace latin1_ucd c)"

text \<open>A captioning model that gives one caption for every image.\<close>

definition blip_returns :: "nat list \<Rightarrow> string \<Rightarrow> error + nat list" where
  "blip_returns caption image_bytes = Inr caption"

section \<open>Properties of the proactive analysis\<close>

lemma round_int_ge_pow:
  assumes "2 ^ n \<le> a" and "53 \<le> n"
  shows "2 ^ n \<le> round_int a"
proof -
  have "(2::int) ^ 53 \<le> 2 ^ n" using assms(2) by (intro power_increasing) auto
  with assms have a53: "\<not> a < 2 ^ 53" by linarith
  have "(0::int) < 2 ^ n" by (rule zero_less_power) simp
  with assms have pos: "0 < a" by linarith
  define e where "e = nat (bitlen a - 53)"
  define q where "q = a div 2 ^ e"
  have b: "2 ^ nat (bitlen a - 1) \<le> a" "a < 2 ^ nat (bitlen a)"
    using bitlen_bounds[OF pos] by auto
  have "(2::int) ^ n < 2 ^ nat (bitlen a)" using assms b by linarith
  then have bl: "n < nat (bitlen a)" using power_less_imp_less_exp[of "2::int"] by simp
  then have e52: "nat (bitlen a - 1) = 52 + e" unfolding e_def using assms(2) by linarith
  have "2 ^ 52 * 2 ^ e \<le> a" using b(1) e52 by (simp add: power_add)
  then have "2 ^ 52 \<le> q" unfolding q_def
    by (metis zdiv_mono1 nonzero_mult_div_cancel_right zero_less_power power_not_zero
        zero_less_numeral zero_neq_numeral)
  then have h1: "2 ^ 52 * 2 ^ e \<le> q * (2::int) ^ e" by (simp add: mult_right_mono)
  have "(2::int) ^ n \<le> 2 ^ (52 + e)" using bl e52 by (intro power_increasing) auto
  then have h2: "(2::int) ^ n \<le> 2 ^ 52 * 2 ^ e" by (simp only: power_add)
  from h2 h1 have qe: "2 ^ n \<le> q * 2 ^ e" by (rule order_trans)
  have "q * 2 ^ e \<le> (q + 1) * (2::int) ^ e" by (simp add: mult_right_mono)
  with qe have "2 ^ n \<le> (q + 1) * (2::int) ^ e" by linarith
  with qe a53 show ?thesis
    unfolding round_int_def Let_def e_def[symmetric] q_def[symmetric] by simp
qed

lemma float_of_int_overflow:
  "2 ^ 1024 \<le> \<bar>n\<bar> \<Longrightarrow> float_of_int n = Inl OverflowError"
  unfolding float_of_int_def Let_def using round_int_ge_pow[of 1024 "\<bar>n\<bar>"] by simp

lemma ten_pow_400_large: "(2::int) ^ 1024 \<le> \<bar>10 ^ 400\<bar>"
  by simp

lemma py_float_errors:
  "py_float sf x = Inl e \<Longrightarrow> e = ValueError \<or> e = TypeError \<or> e = OverflowError"
  by (cases x) (auto simp: float_of_int_def Let_def split: option.splits if_splits)

lemma clamp_range:
  "\<exists>q. num_val (py_max (PInt 0) (py_min (PInt 5) (PFloat f))) = Some q \<and> 0 \<le> q \<and> q \<le> 5"
  by (cases f) (auto simp: py_max_def py_min_def num_lt_def)

lemma clamp_score_range:
  "clamp_score sf x = Inr s \<Longrightarrow> \<exists>q. num_val s = Some q \<and> 0 \<le> q \<and> q \<le> 5"
  using clamp_range by (auto simp: clamp_score_def split: sum.splits error.splits)

lemma clamp_score_raises:
  "clamp_score sf x = Inl e \<longleftrightarrow> e = OverflowError \<and> py_float sf x = Inl OverflowError"
  using py_float_errors[of sf x]
  by (auto simp: clamp_score_def split: sum.splits error.splits)

text \<open>
  Whenever the validation returns, the score lies in \<open>[0, 5]\<close> and at most three tags
  are kept: the first three of a list, none for any other value.
\<close>

lemma validate_returns_in_range:
  assumes "validate_analysis_result sf (JDict d) = Inr r"
  shows "\<exists>q. num_val (proactive_score r) = Some q \<and> 0 \<le> q \<and> q \<le> 5"
    and "length (seasonal_tags r) \<le> 3"
    and "seasonal_tags r =
           (case map_of d ''seasonal_tags'' of Some (JList xs) \<Rightarrow> take 3 xs | _ \<Rightarrow> [])"
proof -
  from assms obtain s where s: "clamp_score sf (dict_get d ''proactive_score'' (JInt 0)) = Inr s"
    and r: "proactive_score r = s"
      "seasonal_tags r =
         take 3 (case dict_get d ''seasonal_tags'' (JList []) of JList xs \<Rightarrow> xs | _ \<Rightarrow> [])"
    by (auto simp: validate_analysis_result_def Let_def split: sum.splits)
  show "\<exists>q. num_val (proactive_score r) = Some q \<and> 0 \<le> q \<and> q \<le> 5"
    using clamp_score_range[OF s] r(1) by simp
  show "length (seasonal_tags r) \<le> 3" using r(2) by simp
  show "seasonal_tags r =
      (case map_of d ''seasonal_tags'' of Some (JList xs) \<Rightarrow> take 3 xs | _ \<Rightarrow> [])"
    using r(2) by (simp add: dict_get_def split: option.splits json.splits)
qed

text \<open>The validation raises exactly when the score is an int too large for a float.\<close>

lemma validate_raises_iff:
  "(\<exists>e. validate_analysis_result sf (JDict d) = Inl e) \<longleftrightarrow>
     py_float sf (dict_get d ''proactive_score'' (JInt 0)) = Inl OverflowError"
proof -
  have "(\<exists>e. validate_analysis_result sf (JDict d) = Inl e) \<longleftrightarrow>
        (\<exists>e. clamp_score sf (dict_get d ''proactive_score'' (JInt 0)) = Inl e)"
    by (auto simp: validate_analysis_result_def Let_def split: sum.splits)
  then show ?thesis by (simp add: clamp_score_raises)
qed

text \<open>
  Claim C1. The claim: for every raw analysis object, the validated result has its score
  in \<open>[0, 5]\<close> and at most three tags, a list of tags being cut to its first three, and
  every failure to convert the score gives the score 0. The code at the object with the
  tags \<open>["summer"]\<close> and the score \<open>10 ^ 400\<close>: the conversion to float raises
  OverflowError, which the handler for ValueError and TypeError does not catch, so the
  validation returns no result; the handler of \<open>analyze_memory\<close> then gives the default
  analysis, where the list of tags is dropped instead of kept.
\<close>

theorem validate_overflow_escapes:
  "validate_analysis_result no_numeric_strings
     (JDict [(''seasonal_tags'', JList [JStr ''summer'']), (''proactive_score'', JInt (10 ^ 400))])
     = Inl OverflowError
   \<and> seasonal_tags
       (analyze_memory True (reply_with ''{}'')
          (decode_as (JDict [(''seasonal_tags'', JList [JStr ''summer'']),
                             (''proactive_score'', JInt (10 ^ 400))]))
          no_numeric_strings sample_memory) = []"
  using float_of_int_overflow[OF ten_pow_400_large]
  by (simp add: validate_analysis_result_def dict_get_def clamp_score_def analyze_memory_def
      analyze_memory_try_def reply_with_def decode_as_def get_default_analysis_def)

text \<open>
  Claim C7. When the component is not ready, or the call of the model raises, or the
  reply of the model does not decode as JSON, \<open>analyze_memory\<close> returns the fixed default
  analysis: no anniversary type, no tags, score 0 and the placeholder reasoning. The
  function returns an analysis on every path, so no exception reaches the caller.
\<close>

theorem analyze_memory_failure_default:
  "(\<not> is_ready \<longrightarrow> analyze_memory is_ready chat loads sf r = get_default_analysis)
   \<and> (chat (construct_analysis_prompt r) = Inl e \<longrightarrow>
        analyze_memory is_ready chat loads sf r = get_default_analysis)
   \<and> (chat (construct_analysis_prompt r) = Inr s \<and> loads s = Inl e' \<longrightarrow>
        analyze_memory is_ready chat loads sf r = get_default_analysis)
   \<and> get_default_analysis =
        \<lparr>anniversary_type = JNull, seasonal_tags = [], proactive_score = PInt 0,
         reasoning = JStr ''Analysis failed, using default values.''\<rparr>"
  by (auto simp: analyze_memory_def analyze_memory_try_def get_default_analysis_def
      split: error.splits)

theorem analyze_memory_failure_default_witness:
  "analyze_memory False (reply_with ''{}'') (decode_as (JDict [])) no_numeric_strings sample_memory
     = get_default_analysis
   \<and> analyze_memory True (chat_fails (RuntimeFailure ''connection refused'')) (decode_as (JDict []))
       no_numeric_strings sample_memory = get_default_analysis
   \<and> analyze_memory True (reply_with ''not json'') decode_fails no_numeric_strings sample_memory
       = get_default_analysis"
  using analyze_memory_failure_default
          [where is_ready = False and chat = "reply_with ''{}''" and loads = "decode_as (JDict [])"
             and sf = no_numeric_strings and r = sample_memory]
        analyze_memory_failure_default
          [where is_ready = True and chat = "chat_fails (RuntimeFailure ''connection refused'')"
             and loads = "decode_as (JDict [])" and sf = no_numeric_strings and r = sample_memory
             and e = "RuntimeFailure ''connection refused''"]
        analyze_memory_failure_default
          [where is_ready = True and chat = "reply_with ''not json''" and loads = decode_fails
             and sf = no_numeric_strings and r = sample_memory and s = "''not json''"
             and e' = JSONDecodeError]
  by (simp add: chat_fails_def reply_with_def decode_fails_def)

text \<open>
  Claim C10. In the validation, the anniversary type of the reply is returned as it is,
  except that the string \<open>"null"\<close> and a missing key both give the absent value; no
  set of labels is enforced, so any other string passes through unchanged.
\<close>

theorem anniversary_type_passthrough:
  "validate_analysis_result sf (JDict d) = Inr r \<Longrightarrow>
     anniversary_type r =
       (case map_of d ''anniversary_type'' of
          None \<Rightarrow> JNull
        | Some v \<Rightarrow> if v = JStr ''null'' then JNull else v)"
  by (auto simp: validate_analysis_result_def dict_get_def Let_def
      split: sum.splits option.splits)

theorem anniversary_type_passthrough_witness:
  "validate_analysis_result no_numeric_strings
     (JDict [(''anniversary_type'', JStr ''party''), (''proactive_score'', JInt 3)])
     = Inr \<lparr>anniversary_type = JStr ''party'', seasonal_tags = [],
            proactive_score = PFloat (Fin 3), reasoning = JStr ''No reasoning provided.''\<rparr>
   \<and> anniversary_type
        \<lparr>anniversary_type = JStr ''party'', seasonal_tags = [],
         proactive_score = PFloat (Fin 3), reasoning = JStr ''No reasoning provided.''\<rparr>
       = JStr ''party''"
proof -
  have h: "validate_analysis_result no_numeric_strings
     (JDict [(''anniversary_type'', JStr ''party''), (''proactive_score'', JInt 3)])
     = Inr \<lparr>anniversary_type = JStr ''party'', seasonal_tags = [],
            proactive_score = PFloat (Fin 3), reasoning = JStr ''No reasoning provided.''\<rparr>"
    by (simp add: validate_analysis_result_def dict_get_def clamp_score_def float_of_int_def
        round_int_def py_max_def py_min_def num_lt_def)
  show ?thesis using h anniversary_type_passthrough[OF h] by simp
qed

section \<open>Properties of the director\<close>

lemma sublist_skip: "sublist xs ys \<Longrightarrow> sublist xs (ps @ ys)"
  unfolding sublist_def by (metis append.assoc)

lemma sublist_keep: "sublist xs ys \<Longrightarrow> sublist xs (ys @ ss)"
  unfolding sublist_def by (metis append.assoc)

lemma str_nat_one: "str_nat (Suc 0) = ''1''"
  by code_simp

lemma scene_lines_concat:
  "scene_lines i mems = concat (map2 scene_instruction [Suc i ..< Suc i + length mems] mems)"
proof (induction mems arbitrary: i)
  case Nil
  show ?case by simp
next
  case (Cons mem mems)
  have "[Suc i ..< Suc i + length (mem # mems)]
          = Suc i # [Suc (Suc i) ..< Suc (Suc i) + length mems]"
    by (simp add: upt_rec)
  then show ?case using Cons.IH[of "Suc i"] by (simp add: scene_instruction_def)
qed

text \<open>
  With at least one memory in the request, the prompt is the text up to the list of
  memories, then the section on scene creation for the visual memories, then the
  closing section; the conversation type and the query play no part in this.
\<close>

lemma prompt_with_memories:
  "context_memories r \<noteq> [] \<Longrightarrow>
   construct_prompt r =
     (base_section @ mode_section r @ override_section r @ rules_section @ patient_section r
      @ nl @ nl @ ''--- RELEVANT MEMORIES ---''
      @ memory_lines (patient_name_of r) 0 (context_memories r))
     @ scene_creation_section (filter is_visual (context_memories r))
     @ respond_section r"
  by (simp add: construct_prompt_def memories_section_def)

text \<open>
  Claim C3. For a request whose conversation type is not casual, whose query is not the
  photo-recognition literal and which has at least one photo or video memory, the prompt
  lists one scene instruction for each visual memory, in order and numbered from 1, each
  with the identifier and the category of its memory and, for a video, the request for a
  short narration; there are as many instructions as visual memories.
\<close>

theorem prompt_enumerates_scenes:
  assumes "conversation_type request \<noteq> Some ''casual''"
    and "query request \<noteq> photo_recognition_query"
    and "vs = filter is_visual (context_memories request)"
    and "vs \<noteq> []"
  shows "construct_prompt request =
           base_section @ mode_section request @ rules_section @ patient_section request
           @ nl @ nl @ ''--- RELEVANT MEMORIES ---''
           @ memory_lines (patient_name_of request) 0 (context_memories request)
           @ nl @ ''--- MANDATORY SCENE CREATION ---''
           @ nl @ ''You MUST create '' @ str_nat (length vs)
           @ '' scenes using these exact memory IDs:''
           @ concat (map2 scene_instruction [1 ..< Suc (length vs)] vs)
           @ nl @ ''DO NOT create fewer than '' @ str_nat (length vs)
           @ '' scenes. Each visual memory MUST have its own scene.''
           @ respond_section request
         \<and> length (map2 scene_instruction [1 ..< Suc (length vs)] vs) = length vs"
proof -
  have ne: "context_memories request \<noteq> []" using assms(3,4) by auto
  have sl: "scene_lines 0 vs = concat (map2 scene_instruction [1 ..< Suc (length vs)] vs)"
    using scene_lines_concat[of 0 vs] by simp
  have ov: "override_section request = []" using assms(2) by (simp add: override_section_def)
  have sc: "scene_creation_section vs =
      nl @ ''--- MANDATORY SCENE CREATION ---''
      @ nl @ ''You MUST create '' @ str_nat (length vs)
      @ '' scenes using these exact memory IDs:''
      @ concat (map2 scene_instruction [1 ..< Suc (length vs)] vs)
      @ nl @ ''DO NOT create fewer than '' @ str_nat (length vs)
      @ '' scenes. Each visual memory MUST have its own scene.''"
    using assms(4) by (simp only: scene_creation_section_def sl if_False)
  have "construct_prompt request =
     (base_section @ mode_section request @ override_section request @ rules_section
      @ patient_section request
      @ nl @ nl @ ''--- RELEVANT MEMORIES ---''
      @ memory_lines (patient_name_of request) 0 (context_memories request))
     @ scene_creation_section vs @ respond_section request"
    unfolding assms(3) by (rule prompt_with_memories[OF ne])
  then show ?thesis unfolding sc ov by (simp del: upt_Suc)
qed

theorem prompt_enumerates_scenes_witness:
  "conversation_type two_visual_request \<noteq> Some ''casual''
   \<and> query two_visual_request \<noteq> photo_recognition_query
   \<and> length (filter is_visual (context_memories two_visual_request)) = 2
   \<and> sublist
        (nl @ ''- Scene 1: memory_id '' @ sq @ ''m1'' @ sq @ '' (photo)''
         @ nl @ ''- Scene 2: memory_id '' @ sq @ ''m3'' @ sq @ '' (video) - KEEP NARRATION SHORT'')
        (construct_prompt two_visual_request)"
proof -
  let ?vs = "[\<lparr>mc_memory_id = ''m1'', mc_type = ''photo'', mc_description = ''Beach day''\<rparr>,
              \<lparr>mc_memory_id = ''m3'', mc_type = ''video'', mc_description = ''Birthday''\<rparr>]"
  have h1: "conversation_type two_visual_request \<noteq> Some ''casual''"
    by (simp add: two_visual_request_def)
  have h2: "query two_visual_request \<noteq> photo_recognition_query"
    by (simp add: two_visual_request_def photo_recognition_query_def)
  have h3: "?vs = filter is_visual (context_memories two_visual_request)"
    by (simp add: two_visual_request_def is_visual_def)
  have h4: "?vs \<noteq> []" by simp
  have c: "concat (map2 scene_instruction [1 ..< Suc (length ?vs)] ?vs) =
        nl @ ''- Scene 1: memory_id '' @ sq @ ''m1'' @ sq @ '' (photo)''
        @ nl @ ''- Scene 2: memory_id '' @ sq @ ''m3'' @ sq @ '' (video) - KEEP NARRATION SHORT''"
    by code_simp
  have e: "construct_prompt two_visual_request =
           base_section @ mode_section two_visual_request @ rules_section
           @ patient_section two_visual_request
           @ nl @ nl @ ''--- RELEVANT MEMORIES ---''
           @ memory_lines (patient_name_of two_visual_request) 0
               (context_memories two_visual_request)
           @ nl @ ''--- MANDATORY SCENE CREATION ---''
           @ nl @ ''You MUST create '' @ str_nat (length ?vs)
           @ '' scenes using these exact memory IDs:''
           @ concat (map2 scene_instruction [1 ..< Suc (length ?vs)] ?vs)
           @ nl @ ''DO NOT create fewer than '' @ str_nat (length ?vs)
           @ '' scenes. Each visual memory MUST have its own scene.''
           @ respond_section two_visual_request"
    using prompt_enumerates_scenes[OF h1 h2 h3 h4] by (rule conjunct1)
  have "sublist (concat (map2 scene_instruction [1 ..< Suc (length ?vs)] ?vs))
          (construct_prompt two_visual_request)"
    unfolding e by (rule sublist_appendI | rule sublist_skip)+
  then have s: "sublist
        (nl @ ''- Scene 1: memory_id '' @ sq @ ''m1'' @ sq @ '' (photo)''
         @ nl @ ''- Scene 2: memory_id '' @ sq @ ''m3'' @ sq @ '' (video) - KEEP NARRATION SHORT'')
        (construct_prompt two_visual_request)"
    unfolding c .
  have l: "length (filter is_visual (context_memories two_visual_request)) = 2"
    unfolding h3[symmetric] by simp
  from h1 h2 l s show ?thesis by (intro conjI)
qed

lemma narrative_init:
  "map_of d ''response_type'' = Some (JStr ''narrative'') \<Longrightarrow>
   NarrativeResponse_init d =
     (case map_of d ''message'' of
        Some (JStr m) \<Rightarrow> Inr (NarrativeResponse m)
      | _ \<Rightarrow> Inl ValidationError)"
  by (auto simp: NarrativeResponse_init_def literal_ok_def split: option.splits json.splits)

lemma interpret_reply_Inr:
  "interpret_reply loads s = Inr resp \<longleftrightarrow>
     (\<exists>d. loads s = Inr (JDict d) \<and>
        (map_of d ''response_type'' = Some (JStr ''cinematic_show'') \<and>
           CinematicShow_init d = Inr resp
         \<or> map_of d ''response_type'' = Some (JStr ''narrative'') \<and>
           (\<exists>m. map_of d ''message'' = Some (JStr m) \<and> resp = NarrativeResponse m)))"
  by (auto simp: interpret_reply_def narrative_init split: sum.splits json.splits option.splits)

text \<open>
  Claim C2, amended. When the component is ready the model is called once, with the
  constructed prompt. If the reply decodes to an object whose \<open>response_type\<close> is
  \<open>"cinematic_show"\<close> and which validates as a cinematic show, the result is that show;
  if its \<open>response_type\<close> is \<open>"narrative"\<close> and its \<open>message\<close> is a string, the result
  is the narrative with that message. In every other case, a failing call, a reply that
  does not decode, a decoded value that is no object, another \<open>response_type\<close>, or an
  object that does not validate, the result is the fallback apology. When the component
  is not ready the model is not called and the result is the fixed message that the
  service is not available. The function returns a response on every path.
\<close>

theorem generate_response_cases:
  "(\<not> is_ready \<longrightarrow>
      generate_response is_ready chat loads request
        = (NarrativeResponse not_available_message, []))
   \<and> (is_ready \<longrightarrow>
        snd (generate_response is_ready chat loads request) = [construct_prompt request])
   \<and> (is_ready \<and> chat (construct_prompt request) = Inr s \<and> loads s = Inr (JDict d)
        \<and> map_of d ''response_type'' = Some (JStr ''cinematic_show'')
        \<and> CinematicShow_init d = Inr sh
       \<longrightarrow> fst (generate_response is_ready chat loads request) = sh)
   \<and> (is_ready \<and> chat (construct_prompt request) = Inr s \<and> loads s = Inr (JDict d)
        \<and> map_of d ''response_type'' = Some (JStr ''narrative'')
        \<and> map_of d ''message'' = Some (JStr m)
       \<longrightarrow> fst (generate_response is_ready chat loads request) = NarrativeResponse m)
   \<and> (is_ready \<longrightarrow>
        fst (generate_response is_ready chat loads request) = NarrativeResponse fallback_message
        \<or> (\<exists>s' d'. chat (construct_prompt request) = Inr s' \<and> loads s' = Inr (JDict d') \<and>
              (map_of d' ''response_type'' = Some (JStr ''cinematic_show'') \<and>
                 CinematicShow_init d' = Inr (fst (generate_response is_ready chat loads request))
               \<or> map_of d' ''response_type'' = Some (JStr ''narrative'') \<and>
                 (\<exists>m'. map_of d' ''message'' = Some (JStr m') \<and>
                    fst (generate_response is_ready chat loads request) = NarrativeResponse m'))))"
proof -
  have a: "\<not> is_ready \<Longrightarrow> generate_response is_ready chat loads request
        = (NarrativeResponse not_available_message, [])"
    by (simp add: generate_response_def)
  have b: "is_ready \<Longrightarrow> snd (generate_response is_ready chat loads request) = [construct_prompt request]"
    by (simp add: generate_response_def Let_def)
  have f: "fst (generate_response True chat loads request) =
      (case chat (construct_prompt request) of
         Inl e \<Rightarrow> NarrativeResponse fallback_message
       | Inr raw \<Rightarrow> (case interpret_reply loads raw of
                       Inl e \<Rightarrow> NarrativeResponse fallback_message
                     | Inr response \<Rightarrow> response))"
    by (simp add: generate_response_def Let_def)
  have c: "is_ready \<and> chat (construct_prompt request) = Inr s \<and> loads s = Inr (JDict d)
        \<and> map_of d ''response_type'' = Some (JStr ''cinematic_show'')
        \<and> CinematicShow_init d = Inr sh
       \<Longrightarrow> fst (generate_response is_ready chat loads request) = sh"
    by (simp add: f interpret_reply_def)
  have d: "is_ready \<and> chat (construct_prompt request) = Inr s \<and> loads s = Inr (JDict d)
        \<and> map_of d ''response_type'' = Some (JStr ''narrative'')
        \<and> map_of d ''message'' = Some (JStr m)
       \<Longrightarrow> fst (generate_response is_ready chat loads request) = NarrativeResponse m"
    by (simp add: f interpret_reply_def narrative_init)
  have e: "is_ready \<Longrightarrow>
        fst (generate_response is_ready chat loads request) = NarrativeResponse fallback_message
        \<or> (\<exists>s' d'. chat (construct_prompt request) = Inr s' \<and> loads s' = Inr (JDict d') \<and>
              (map_of d' ''response_type'' = Some (JStr ''cinematic_show'') \<and>
                 CinematicShow_init d' = Inr (fst (generate_response is_ready chat loads request))
               \<or> map_of d' ''response_type'' = Some (JStr ''narrative'') \<and>
                 (\<exists>m'. map_of d' ''message'' = Some (JStr m') \<and>
                    fst (generate_response is_ready chat loads request) = NarrativeResponse m')))"
  proof (cases "chat (construct_prompt request)")
    case (Inl x)
    assume "is_ready"
    then show ?thesis using Inl by (simp add: f)
  next
    case (Inr raw)
    assume r: "is_ready"
    show ?thesis
    proof (cases "interpret_reply loads raw")
      case (Inl x)
      then show ?thesis using Inr r by (simp add: f)
    next
      case (Inr resp)
      then have "fst (generate_response is_ready chat loads request) = resp"
        using \<open>chat (construct_prompt request) = Inr raw\<close> r by (simp add: f)
      then show ?thesis
        using Inr[unfolded interpret_reply_Inr] \<open>chat (construct_prompt request) = Inr raw\<close>
        by auto
    qed
  qed
  from a b c d e show ?thesis by blast
qed

theorem generate_response_cases_witness:
  \<open>fst (generate_response True (reply_with ''{"response_type":"narrative","message":"Hi"}'')
          (decode_as (JDict [(''response_type'', JStr ''narrative''), (''message'', JStr ''Hi'')]))
          sample_request) = NarrativeResponse ''Hi''
   \<and> fst (generate_response True (reply_with ''(a show)'')
          (decode_as (JDict [(''response_type'', JStr ''cinematic_show''),
                             (''show_title'', JStr ''Your day at the beach''),
                             (''scenes'', JList [JDict [(''memory_id'', JStr ''m1''),
                                                       (''narration'', JStr ''You are at the beach.'')]])]))
          sample_request)
       = CinematicShow ''Your day at the beach'' [Scene ''m1'' ''You are at the beach.'']
   \<and> snd (generate_response True (chat_fails (RuntimeFailure ''connection refused''))
          decode_fails sample_request) = [construct_prompt sample_request]
   \<and> generate_response False (reply_with ''{}'') decode_fails sample_request
       = (NarrativeResponse not_available_message, [])\<close>
proof -
  have c: "CinematicShow_init [(''response_type'', JStr ''cinematic_show''),
                             (''show_title'', JStr ''Your day at the beach''),
                             (''scenes'', JList [JDict [(''memory_id'', JStr ''m1''),
                                                       (''narration'', JStr ''You are at the beach.'')]])]
           = Inr (CinematicShow ''Your day at the beach'' [Scene ''m1'' ''You are at the beach.''])"
    by (simp add: CinematicShow_init_def literal_ok_def)
  show ?thesis
    using generate_response_cases
            [where is_ready = True
               and chat = \<open>reply_with ''{"response_type":"narrative","message":"Hi"}''\<close>
               and loads = "decode_as (JDict [(''response_type'', JStr ''narrative''),
                                              (''message'', JStr ''Hi'')])"
               and request = sample_request
               and s = \<open>''{"response_type":"narrative","message":"Hi"}''\<close>
               and d = "[(''response_type'', JStr ''narrative''), (''message'', JStr ''Hi'')]"
               and m = "''Hi''"]
          generate_response_cases
            [where is_ready = True and chat = "reply_with ''(a show)''"
               and loads = "decode_as (JDict [(''response_type'', JStr ''cinematic_show''),
                             (''show_title'', JStr ''Your day at the beach''),
                             (''scenes'', JList [JDict [(''memory_id'', JStr ''m1''),
                                                       (''narration'', JStr ''You are at the beach.'')]])])"
               and request = sample_request and s = "''(a show)''"
               and d = "[(''response_type'', JStr ''cinematic_show''),
                             (''show_title'', JStr ''Your day at the beach''),
                             (''scenes'', JList [JDict [(''memory_id'', JStr ''m1''),
                                                       (''narration'', JStr ''You are at the beach.'')]])]"
               and sh = "CinematicShow ''Your day at the beach'' [Scene ''m1'' ''You are at the beach.'']"]
          generate_response_cases
            [where is_ready = True and chat = "chat_fails (RuntimeFailure ''connection refused'')"
               and loads = decode_fails and request = sample_request]
          generate_response_cases
            [where is_ready = False and chat = "reply_with ''{}''"
               and loads = decode_fails and request = sample_request]
          c
    by (simp add: reply_with_def decode_as_def)
qed

text \<open>
  The claim C2 as it was stated, that a reply with the \<open>response_type\<close>
  \<open>"cinematic_show"\<close> always gives the cinematic show, fails at the reply that has this
  tag and no other field: the construction of the show raises a validation error and
  the result is the fallback apology.
\<close>

theorem cinematic_tag_without_fields_falls_back:
  \<open>fst (generate_response True (reply_with ''{"response_type":"cinematic_show"}'')
          (decode_as (JDict [(''response_type'', JStr ''cinematic_show'')])) sample_request)
     = NarrativeResponse fallback_message\<close>
  by (simp add: generate_response_def interpret_reply_def reply_with_def decode_as_def
      CinematicShow_init_def literal_ok_def)

text \<open>
  Claim C4. The claim: in the casual mode the prompt asks for the narrative format only
  and has no instruction that requires scenes, whatever memories come with the request.
  The code on a casual request that carries one photo memory: the section on scene
  creation depends on the visual memories alone, so the prompt holds it, between the
  two requests for the narrative format.
\<close>

theorem casual_prompt_demands_scenes:
  "conversation_type casual_photo_request = Some ''casual''
   \<and> sublist
        (nl @ ''--- MANDATORY SCENE CREATION ---''
         @ nl @ ''You MUST create 1 scenes using these exact memory IDs:''
         @ nl @ ''- Scene 1: memory_id '' @ sq @ ''m1'' @ sq @ '' (photo)'')
        (construct_prompt casual_photo_request)"
proof -
  have ne: "context_memories casual_photo_request \<noteq> []"
    by (simp add: casual_photo_request_def sample_request_def)
  have sc: "scene_creation_section (filter is_visual (context_memories casual_photo_request)) =
      (nl @ ''--- MANDATORY SCENE CREATION ---''
       @ nl @ ''You MUST create 1 scenes using these exact memory IDs:''
       @ nl @ ''- Scene 1: memory_id '' @ sq @ ''m1'' @ sq @ '' (photo)'')
      @ (nl @ ''DO NOT create fewer than 1 scenes. Each visual memory MUST have its own scene.'')"
    by (simp add: casual_photo_request_def sample_request_def is_visual_def
        scene_creation_section_def str_nat_one del: str_nat.simps)
  have "sublist
        (nl @ ''--- MANDATORY SCENE CREATION ---''
         @ nl @ ''You MUST create 1 scenes using these exact memory IDs:''
         @ nl @ ''- Scene 1: memory_id '' @ sq @ ''m1'' @ sq @ '' (photo)'')
        (construct_prompt casual_photo_request)"
    unfolding prompt_with_memories[OF ne] sc
    by (rule sublist_skip, rule sublist_keep, rule sublist_append_rightI)
  moreover have "conversation_type casual_photo_request = Some ''casual''"
    by (simp add: casual_photo_request_def)
  ultimately show ?thesis by (intro conjI)
qed

text \<open>
  Claim C5, amended. When the query is the photo-recognition literal, the prompt holds
  the override section, which asks for the narrative format; the section stands right
  after the section of the conversation mode, so after any instruction of that section
  to use the cinematic format, and before the rules. It is added to the prompt and
  replaces nothing.
\<close>

theorem override_follows_mode_section:
  "query request = photo_recognition_query \<Longrightarrow>
     prefix
       (base_section @ mode_section request
        @ nl @ nl @ ''--- PHOTO RECOGNITION OVERRIDE ---''
        @ nl @ ''This is a specific photo the user showed. Use NARRATIVE format to describe this specific memory warmly.''
        @ rules_section)
       (construct_prompt request)"
  unfolding construct_prompt_def override_section_def prefix_def by simp

theorem override_follows_mode_section_witness:
  "query recognized_photo_request = photo_recognition_query
   \<and> prefix
       (base_section @ mode_section recognized_photo_request
        @ nl @ nl @ ''--- PHOTO RECOGNITION OVERRIDE ---''
        @ nl @ ''This is a specific photo the user showed. Use NARRATIVE format to describe this specific memory warmly.''
        @ rules_section)
       (construct_prompt recognized_photo_request)"
proof -
  have h: "query recognized_photo_request = photo_recognition_query"
    by (simp add: recognized_photo_request_def)
  show ?thesis using h override_follows_mode_section[OF h] by simp
qed

text \<open>
  The claim C5 as it was stated, that with the literal query no cinematic requirement
  appears in the prompt, fails at the request with this query, the memory-based mode
  and one photo memory: the section of the mode still tells the model to use the
  cinematic format.
\<close>

theorem override_keeps_cinematic_instruction:
  "query recognized_photo_request = photo_recognition_query
   \<and> sublist
        (''Since 1 visual memories (photos/videos) are available, use CINEMATIC format.''
         @ nl @ ''You MUST create exactly 1 scenes - one for each visual memory provided.'')
        (construct_prompt recognized_photo_request)"
proof -
  have m: "mode_section recognized_photo_request =
      (nl @ nl @ ''--- MEMORY CONVERSATION MODE ---''
       @ nl @ ''The user is asking about memories. Relevant memories have been provided below.''
       @ nl)
      @ (''Since 1 visual memories (photos/videos) are available, use CINEMATIC format.''
         @ nl @ ''You MUST create exactly 1 scenes - one for each visual memory provided.'')
      @ (nl @ ''DO NOT skip any memories. Include ALL 1 visual memories as separate scenes.'')"
    by (simp add: mode_section_def memory_based_section_def recognized_photo_request_def
        sample_request_def is_visual_def str_nat_one del: str_nat.simps)
  have "sublist
        (''Since 1 visual memories (photos/videos) are available, use CINEMATIC format.''
         @ nl @ ''You MUST create exactly 1 scenes - one for each visual memory provided.'')
        (construct_prompt recognized_photo_request)"
    unfolding construct_prompt_def m
    by (rule sublist_skip, rule sublist_keep, rule sublist_appendI)
  moreover have "query recognized_photo_request = photo_recognition_query"
    by (simp add: recognized_photo_request_def)
  ultimately show ?thesis by (intro conjI)
qed

section \<open>Properties of the face matching\<close>

lemma first_true_None: "first_true (map P xs) = None \<longleftrightarrow> find P xs = None"
  by (induction xs) auto

lemma first_true_Some:
  "first_true (map P xs) = Some i \<Longrightarrow> i < length xs \<and> find P xs = Some (xs ! i)"
proof (induction xs arbitrary: i)
  case Nil
  then show ?case by simp
next
  case (Cons x xs)
  then show ?case by (cases "P x") auto
qed

lemma match_step:
  "first_true (compare_faces fd (map fst known) f) = None \<longleftrightarrow> first_match fd known f = None"
  "first_true (compare_faces fd (map fst known) f) = Some i \<Longrightarrow>
     first_match fd known f = Some (map snd known ! i)"
proof -
  have m: "compare_faces fd (map fst known) f
             = map (\<lambda>k. float_le (fd (fst k) f) tolerance) known"
    by (simp add: compare_faces_def comp_def)
  show "first_true (compare_faces fd (map fst known) f) = None \<longleftrightarrow> first_match fd known f = None"
    unfolding m first_match_def by (simp add: first_true_None)
  show "first_true (compare_faces fd (map fst known) f) = Some i \<Longrightarrow>
     first_match fd known f = Some (map snd known ! i)"
    unfolding m first_match_def using first_true_Some[of "\<lambda>k. float_le (fd (fst k) f) tolerance" known i]
    by simp
qed

lemma dedup_ids_set_cong: "set seen = set seen' \<Longrightarrow> dedup_ids seen ms = dedup_ids seen' ms"
proof (induction ms arbitrary: seen seen')
  case Nil
  show ?case by simp
next
  case (Cons p ps)
  have "set (fst p # seen) = set (fst p # seen')" using Cons.prems by simp
  then have "dedup_ids (fst p # seen) ps = dedup_ids (fst p # seen') ps" by (rule Cons.IH)
  moreover have "dedup_ids seen ps = dedup_ids seen' ps" using Cons.prems by (rule Cons.IH)
  ultimately show ?case using Cons.prems by simp
qed

lemma list_ex_fst: "list_ex (\<lambda>p. fst p = x) acc \<longleftrightarrow> x \<in> set (map fst acc)"
  by (induction acc) auto

lemma match_faces_dedup:
  "match_faces fd known faces acc
     = acc @ dedup_ids (map fst acc) (List.map_filter (first_match fd known) faces)"
proof (induction faces arbitrary: acc)
  case Nil
  show ?case by simp
next
  case (Cons f fs)
  show ?case
  proof (cases "first_true (compare_faces fd (map fst known) f)")
    case None
    then have "first_match fd known f = None" by (simp add: match_step(1))
    then show ?thesis using None Cons.IH[of acc] by simp
  next
    case (Some i)
    let ?m = "map snd known ! i"
    have fm: "first_match fd known f = Some ?m" using match_step(2)[OF Some] .
    show ?thesis
    proof (cases "fst ?m \<in> set (map fst acc)")
      case True
      then have "list_ex (\<lambda>p. fst p = fst ?m) acc" by (simp add: list_ex_fst)
      then show ?thesis using Some fm True Cons.IH[of acc]
        by (simp add: Let_def)
    next
      case False
      then have n: "\<not> list_ex (\<lambda>p. fst p = fst ?m) acc" by (simp add: list_ex_fst)
      have "dedup_ids (map fst (acc @ [(fst ?m, snd ?m)])) (List.map_filter (first_match fd known) fs)
            = dedup_ids (fst ?m # map fst acc) (List.map_filter (first_match fd known) fs)"
        by (rule dedup_ids_set_cong) auto
      then show ?thesis using Some fm False n Cons.IH[of "acc @ [(fst ?m, snd ?m)]"]
        by (simp add: Let_def)
    qed
  qed
qed

lemma dedup_ids_distinct:
  "distinct (map fst (dedup_ids seen ms)) \<and>
   set (map fst (dedup_ids seen ms)) = set (map fst ms) - set seen"
  by (induction ms arbitrary: seen) auto

lemma load_known_retained:
  "load_known enc_avatar payload =
     List.map_filter
       (\<lambda>p. case enc_avatar (kf_avatar_base_64 p) of
              Inr (a # as) \<Rightarrow> Some (a, (kf_person_id p, kf_name p))
            | _ \<Rightarrow> None)
       payload"
  by (induction payload) (auto split: sum.splits list.splits)

text \<open>
  Claim C6. For the faces of the photo in order, the identity recorded for a face is
  that of the first reference, in the order of the list and among the references whose
  avatar gave an encoding, that matches the face at the tolerance, whatever the
  distances of the later references; an identity recorded before is not recorded again,
  so the result holds every matched identity once.
\<close>

theorem identify_people_first_match:
  assumes "is_ready" and "enc_probe photo = Inr faces"
  shows "identify_people is_ready enc_avatar enc_probe fd photo payload
           = Inr (dedup_ids [] (List.map_filter (first_match fd (load_known enc_avatar payload)) faces))
         \<and> distinct (map fst (dedup_ids []
               (List.map_filter (first_match fd (load_known enc_avatar payload)) faces)))
         \<and> set (map fst (dedup_ids []
               (List.map_filter (first_match fd (load_known enc_avatar payload)) faces)))
             = set (map fst (List.map_filter (first_match fd (load_known enc_avatar payload)) faces))"
proof -
  have e: "List.map_filter (first_match fd []) faces = []"
    by (induction faces) (simp_all add: first_match_def)
  have "identify_people is_ready enc_avatar enc_probe fd photo payload
           = Inr (dedup_ids [] (List.map_filter (first_match fd (load_known enc_avatar payload)) faces))"
    using assms e match_faces_dedup[of fd "load_known enc_avatar payload" faces "[]"]
    by (cases payload) (simp_all add: identify_people_def Let_def)
  then show ?thesis using dedup_ids_distinct[of "[]"] by simp
qed

theorem identify_people_first_match_witness:
  "demo_encodings ''group'' = Inr [10, 11]
   \<and> identify_people True demo_encodings demo_encodings demo_distance ''group'' demo_known_faces
       = Inr [(7, ''Ann'')]"
proof -
  have h: "demo_encodings ''group'' = Inr [10, 11]" by (simp add: demo_encodings_def)
  have k: "load_known demo_encodings demo_known_faces = [(1, (7, ''Ann'')), (2, (8, ''Bob''))]"
    by (simp add: demo_known_faces_def demo_encodings_def)
  have d: "dedup_ids [] (List.map_filter
             (first_match demo_distance (load_known demo_encodings demo_known_faces)) [10, 11])
           = [(7, ''Ann'')]"
    unfolding k by (simp add: first_match_def demo_distance_def tolerance_def)
  show ?thesis
    using identify_people_first_match[where is_ready = True and enc_probe = demo_encodings
        and photo = "''group''" and faces = "[10, 11]" and enc_avatar = demo_encodings
        and fd = demo_distance and payload = demo_known_faces] h d
    by simp
qed

text \<open>
  Claim C9. When the component is ready, \<open>identify_people\<close> returns a list for every
  input: the empty list when no known face is given, whatever the photo is, and the
  empty list when decoding, loading, locating or encoding the photo raises.
\<close>

theorem identify_people_never_raises:
  assumes "is_ready"
  shows "(\<exists>r. identify_people is_ready enc_avatar enc_probe fd photo payload = Inr r)
       \<and> (payload = [] \<longrightarrow>
            identify_people is_ready enc_avatar enc_probe fd photo payload = Inr [])
       \<and> (enc_probe photo = Inl e \<longrightarrow>
            identify_people is_ready enc_avatar enc_probe fd photo payload = Inr [])"
  using assms by (auto simp: identify_people_def Let_def split: sum.splits)

theorem identify_people_never_raises_witness:
  "identify_people True demo_encodings demo_encodings demo_distance ''not an image'' [] = Inr []
   \<and> identify_people True demo_encodings demo_encodings demo_distance ''not an image''
       demo_known_faces = Inr []"
  using identify_people_never_raises[where is_ready = True and enc_avatar = demo_encodings
      and enc_probe = demo_encodings and fd = demo_distance and photo = "''not an image''"
      and payload = "[]" and e = "RuntimeFailure ''cannot identify image file''"]
    identify_people_never_raises[where is_ready = True and enc_avatar = demo_encodings
      and enc_probe = demo_encodings and fd = demo_distance and photo = "''not an image''"
      and payload = demo_known_faces and e = "RuntimeFailure ''cannot identify image file''"]
  by (simp add: demo_encodings_def)
section \<open>Properties of the caption\<close>

lemma lower_ucs4_latin1:
  assumes "latin1_tables u" and "\<forall>c\<in>set s. c < 256" and "i < length s"
  shows "lower_ucs4 u s i = lower_ucs4 latin1_ucd s i"
proof -
  have c: "s ! i < 256" using assms(2,3) by simp
  then have "s ! i \<noteq> 0x3A3" by simp
  then show ?thesis using assms(1) c by (simp add: lower_ucs4_def latin1_tables_def)
qed

lemma py_lower_latin1:
  assumes "latin1_tables u" and "\<forall>c\<in>set s. c < 256"
  shows "py_lower u s = py_lower latin1_ucd s"
  unfolding py_lower_def using lower_ucs4_latin1[OF assms]
  by (intro arg_cong[where f = concat] map_cong) auto

lemma py_capitalize_latin1:
  assumes "latin1_tables u" and "\<forall>c\<in>set s. c < 256"
  shows "py_capitalize u s = py_capitalize latin1_ucd s"
proof (cases "s = []")
  case True
  then show ?thesis by (simp add: py_capitalize_def)
next
  case False
  then have "s ! 0 < 256" using assms(2) by (cases s) auto
  then have t: "to_title_full u (s ! 0) = to_title_full latin1_ucd (s ! 0)"
    using assms(1) by (simp add: latin1_tables_def)
  have "map (lower_ucs4 u s) [1 ..< length s] = map (lower_ucs4 latin1_ucd s) [1 ..< length s]"
    using lower_ucs4_latin1[OF assms] by (intro map_cong) auto
  then have "concat (map (lower_ucs4 u s) [1 ..< length s])
               = concat (map (lower_ucs4 latin1_ucd s) [1 ..< length s])"
    by (rule arg_cong)
  then show ?thesis using False t unfolding py_capitalize_def by simp
qed

lemma dropWhile_agree:
  "\<forall>x\<in>set xs. P x = Q x \<Longrightarrow> dropWhile P xs = dropWhile Q xs"
  by (induction xs) auto

lemma py_strip_latin1:
  assumes "latin1_tables u" and "\<forall>c\<in>set s. c < 256"
  shows "py_strip u s = py_strip latin1_ucd s"
proof -
  have a: "\<forall>c\<in>set s. is_whitespace u c = is_whitespace latin1_ucd c"
    using assms by (simp add: latin1_tables_def)
  then have d: "dropWhile (is_whitespace u) s = dropWhile (is_whitespace latin1_ucd) s"
    by (rule dropWhile_agree)
  have "\<forall>c\<in>set (rev (dropWhile (is_whitespace latin1_ucd) s)).
          is_whitespace u c = is_whitespace latin1_ucd c"
    using a by (auto dest: set_dropWhileD)
  then show ?thesis unfolding py_strip_def d by (simp add: dropWhile_agree)
qed

lemma py_strip_subset: "set (py_strip u s) \<subseteq> set s"
  unfolding py_strip_def by (auto dest!: set_dropWhileD)

text \<open>
  On a caption of code points below 256, every runtime that agrees with the tables
  above on these code points gives the caption that the tables give.
\<close>

lemma generate_caption_latin1:
  assumes "latin1_tables u" and "\<forall>c\<in>set caption. c < 256"
  shows "generate_caption u is_ready (blip_returns caption) image_bytes
           = generate_caption latin1_ucd is_ready (blip_returns caption) image_bytes"
proof -
  have d: "\<forall>c\<in>set (drop 15 caption). c < 256" using assms(2) by (auto dest: in_set_dropD)
  have s: "\<forall>c\<in>set (py_strip latin1_ucd (drop 15 caption)). c < 256"
    using d py_strip_subset[of latin1_ucd "drop 15 caption"] by auto
  have len: "length ''arafed image of'' = 15" by simp
  show ?thesis
    unfolding generate_caption_def blip_returns_def len
    using py_lower_latin1[OF assms] py_strip_latin1[OF assms(1) d]
      py_capitalize_latin1[OF assms(1) s] py_capitalize_latin1[OF assms]
    by simp
qed

lemma py_capitalize_case:
  "py_capitalize u s =
     (case s of [] \<Rightarrow> []
      | c # cs \<Rightarrow> to_title_full u c @ concat (map (lower_ucs4 u s) [1 ..< length s]))"
  by (cases s) (simp_all add: py_capitalize_def del: upt_Suc)

text \<open>
  Claim C8, amended. For every caption of the captioning model, the component returns
  \<open>str.capitalize\<close> of a body: the first character of the body in its title case and
  every other character in its lower case, so that in an ASCII caption the first letter
  is in upper case and every later letter in lower case. The body is the caption
  itself, not stripped, unless the caption in lower case starts with
  \<open>arafed image of\<close>; then the body is the caption without its first fifteen characters
  and with the white space of both ends stripped.
\<close>

theorem caption_is_capitalized:
  assumes "is_ready" and "blip image_bytes = Inr caption"
    and "body = (if prefix (code_points ''arafed image of'') (py_lower u caption)
                 then py_strip u (drop 15 caption) else caption)"
  shows "generate_caption u is_ready blip image_bytes
           = Inr (case body of [] \<Rightarrow> []
                  | c # cs \<Rightarrow> to_title_full u c
                               @ concat (map (lower_ucs4 u body) [1 ..< length body]))"
proof -
  have len: "length ''arafed image of'' = 15" by simp
  have "generate_caption u is_ready blip image_bytes = Inr (py_capitalize u body)"
    unfolding generate_caption_def len assms(3) using assms(1,2) by simp
  then show ?thesis by (simp only: py_capitalize_case)
qed

theorem caption_is_capitalized_witness:
  "blip_returns (code_points ''Arafed image of  a Dog on a beach '') ''jpeg''
     = Inr (code_points ''Arafed image of  a Dog on a beach '')
   \<and> generate_caption latin1_ucd True
        (blip_returns (code_points ''Arafed image of  a Dog on a beach '')) ''jpeg''
       = Inr (code_points ''A dog on a beach'')
   \<and> blip_returns ([233] @ code_points ''cole '' @ [192] @ code_points '' PARIS'') ''jpeg''
     = Inr ([233] @ code_points ''cole '' @ [192] @ code_points '' PARIS'')
   \<and> generate_caption latin1_ucd True
        (blip_returns ([233] @ code_points ''cole '' @ [192] @ code_points '' PARIS'')) ''jpeg''
       = Inr ([201] @ code_points ''cole '' @ [224] @ code_points '' paris'')"
proof -
  let ?c1 = "code_points ''Arafed image of  a Dog on a beach ''"
  let ?c2 = "[233] @ code_points ''cole '' @ [192] @ code_points '' PARIS''"
  have h1: "blip_returns ?c1 ''jpeg'' = Inr ?c1" by (simp add: blip_returns_def)
  have h2: "blip_returns ?c2 ''jpeg'' = Inr ?c2" by (simp add: blip_returns_def)
  have b1: "code_points ''a Dog on a beach'' =
             (if prefix (code_points ''arafed image of'') (py_lower latin1_ucd ?c1)
              then py_strip latin1_ucd (drop 15 ?c1) else ?c1)"
    by code_simp
  have b2: "?c2 =
             (if prefix (code_points ''arafed image of'') (py_lower latin1_ucd ?c2)
              then py_strip latin1_ucd (drop 15 ?c2) else ?c2)"
    by code_simp
  have u1: "(case code_points ''a Dog on a beach'' of [] \<Rightarrow> []
             | c # cs \<Rightarrow> to_title_full latin1_ucd c
                 @ concat (map (lower_ucs4 latin1_ucd (code_points ''a Dog on a beach''))
                             [1 ..< length (code_points ''a Dog on a beach'')]))
             = code_points ''A dog on a beach''"
    by code_simp
  have u2: "(case ?c2 of [] \<Rightarrow> []
             | c # cs \<Rightarrow> to_title_full latin1_ucd c
                 @ concat (map (lower_ucs4 latin1_ucd ?c2) [1 ..< length ?c2]))
             = [201] @ code_points ''cole '' @ [224] @ code_points '' paris''"
    by code_simp
  have r1: "generate_caption latin1_ucd True (blip_returns ?c1) ''jpeg''
              = Inr (code_points ''A dog on a beach'')"
    using caption_is_capitalized[where u = latin1_ucd and is_ready = True
        and blip = "blip_returns ?c1" and image_bytes = "''jpeg''" and caption = ?c1
        and body = "code_points ''a Dog on a beach''", OF TrueI h1 b1]
    by (simp only: u1)
  have r2: "generate_caption latin1_ucd True (blip_returns ?c2) ''jpeg''
              = Inr ([201] @ code_points ''cole '' @ [224] @ code_points '' paris'')"
    using caption_is_capitalized[where u = latin1_ucd and is_ready = True
        and blip = "blip_returns ?c2" and image_bytes = "''jpeg''" and caption = ?c2
        and body = ?c2, OF TrueI h2 b2]
    by (simp only: u2)
  from h1 r1 h2 r2 show ?thesis by (intro conjI)
qed

text \<open>
  The claim C8 as it was stated, that the caption is stripped and that the rest after
  its first letter is unchanged, fails at a caption with a capital inside, whose rest
  is put in lower case, and at a caption without the prefix and with spaces at its
  ends, which is returned with its spaces.
\<close>

theorem caption_rest_lowered_and_unstripped:
  "generate_caption latin1_ucd True (blip_returns (code_points ''a man in New York'')) ''jpeg''
     = Inr (code_points ''A man in new york'')
   \<and> generate_caption latin1_ucd True (blip_returns (code_points '' a dog '')) ''jpeg''
     = Inr (code_points '' a dog '')"
  by code_simp

end
